theory Spec2Isabelle
  imports Main "HOL-Library.Word"
begin

section \<open>C strings and the libc functions the firmware calls\<close>

text \<open>
  A \<open>const char *\<close> or a \<open>String\<close> argument is a list of bytes; the C string it
  denotes is what stands before the first terminator. Every libc function below reads its
  argument that way, so the model is total: no byte list is excluded.
\<close>

definition NUL :: char where
  "NUL = CHR 0x00"

definition c_str :: "string \<Rightarrow> string" where
  "c_str s = takeWhile (\<lambda>c. c \<noteq> NUL) s"

text \<open>\<open>strncpy(dst, src, n)\<close> writes exactly \<open>n\<close> bytes at the start of \<open>dst\<close>: the
  characters of \<open>src\<close>, cut at \<open>n\<close>, padded with terminators.\<close>

definition strncpy :: "string \<Rightarrow> string \<Rightarrow> nat \<Rightarrow> string" where
  "strncpy dst src n =
     take n (c_str src) @ replicate (n - length (c_str src)) NUL @ drop n dst"

text \<open>\<open>strcpy(dst, src)\<close> writes the characters of \<open>src\<close> and one terminator.\<close>

definition strcpy :: "string \<Rightarrow> string \<Rightarrow> string" where
  "strcpy dst src = c_str src @ [NUL] @ drop (length (c_str src) + 1) dst"

text \<open>\<open>strtok\<close> with the delimiter set \<open>"/"\<close>. The argument is the text from the saved
  position on; the result is the token and the text after the delimiter that ended it
  (the new saved position), or \<open>None\<close> for a \<open>NULL\<close> return.\<close>

definition strtok :: "string \<Rightarrow> (string \<times> string) option" where
  "strtok s =
     (let s' = dropWhile (\<lambda>c. c = CHR ''/'') s in
      if s' = [] then None
      else Some (takeWhile (\<lambda>c. c \<noteq> CHR ''/'') s',
                 drop 1 (dropWhile (\<lambda>c. c \<noteq> CHR ''/'') s')))"

text \<open>\<open>strtol(s, NULL, 10)\<close> on the 32-bit ARM targets of the firmware, where \<open>long\<close>
  and \<open>int\<close> are both 32 bits wide: white space is skipped, one sign is read, then the
  longest run of decimal digits; the value saturates at \<open>LONG_MIN\<close> and \<open>LONG_MAX\<close>,
  and no digits at all give 0.\<close>

definition isspace :: "char \<Rightarrow> bool" where
  "isspace c = (c \<in> set [CHR '' '', CHR 0x09, CHR 0x0A, CHR 0x0B, CHR 0x0C, CHR 0x0D])"

definition isdigit :: "char \<Rightarrow> bool" where
  "isdigit c = (48 \<le> (of_char c :: nat) \<and> (of_char c :: nat) \<le> 57)"

definition digit_value :: "char \<Rightarrow> nat" where
  "digit_value c = of_char c - 48"

definition digits_value :: "string \<Rightarrow> nat" where
  "digits_value ds = foldl (\<lambda>acc c. 10 * acc + digit_value c) 0 ds"

definition LONG_MAX :: int where
  "LONG_MAX = 2147483647"

definition LONG_MIN :: int where
  "LONG_MIN = - 2147483648"

definition strtol :: "string \<Rightarrow> int" where
  "strtol s =
     (let t = dropWhile isspace s;
          neg = (t \<noteq> [] \<and> hd t = CHR ''-'');
          u = (if t \<noteq> [] \<and> (hd t = CHR ''-'' \<or> hd t = CHR ''+'') then tl t else t);
          v = int (digits_value (takeWhile isdigit u))
      in if neg then max LONG_MIN (- v) else min LONG_MAX v)"

section \<open>The device configuration and the state of the device\<close>

definition EEPROM_VERSION :: "8 word" where
  "EEPROM_VERSION = 0x01"

definition MAX_DEVICE_GROUPS :: nat where
  "MAX_DEVICE_GROUPS = 16"

definition MAX_USER_ID_LEN :: nat where
  "MAX_USER_ID_LEN = 8"

text \<open>\<open>struct DeviceConfig_t\<close>: \<open>userID\<close> is the array \<open>char[MAX_USER_ID_LEN+1]\<close> and
  \<open>deviceGroups\<close> the array \<open>uint8_t[MAX_DEVICE_GROUPS]\<close>.\<close>

record DeviceConfig_t =
  version :: "8 word"
  userID :: "char list"
  numGroups :: "8 word"
  deviceGroups :: "8 word list"

text \<open>The layout of the struct: the sizes of its two arrays.\<close>

definition struct_layout :: "DeviceConfig_t \<Rightarrow> bool" where
  "struct_layout c =
     (length (userID c) = MAX_USER_ID_LEN + 1 \<and> length (deviceGroups c) = MAX_DEVICE_GROUPS)"

text \<open>The handlers of both sketches: \<open>function1\<close> to \<open>function3\<close> in
  \<open>example_device_group_fw.ino\<close>, \<open>red\<close>, \<open>green\<close> and \<open>blue\<close> in the second sketch
  (\<open>part_000\<close>). A handler logs its argument (and, in the second sketch, sets the LED);
  the model records the call and its argument.\<close>

datatype handler = function1 | function2 | function3 | red | green | blue

text \<open>What one call of \<open>parseMessage\<close> ends in: a handler call with its argument, the
  warning for an unknown command, the message that the device's group was not addressed,
  or a read beyond \<open>deviceGroups\<close> (undefined in C). An event that is dropped before the
  group is looked at leaves no entry.\<close>

datatype outcome =
    Called handler string
  | Unknown_function string
  | Not_addressed
  | Out_of_bounds_read

text \<open>The global state: the \<open>config\<close> variable, the record stored at EEPROM address 0,
  the event-name prefixes the device is subscribed to, and what the events received so far
  ended in.\<close>

record device =
  config :: DeviceConfig_t
  eeprom :: DeviceConfig_t
  subscriptions :: "string list"
  outcomes :: "outcome list"

definition writeConfigToEEPROM :: "device \<Rightarrow> device" where
  "writeConfigToEEPROM d = d\<lparr>eeprom := config d\<rparr>"

definition subscribe :: "string \<Rightarrow> device \<Rightarrow> device" where
  "subscribe prefix d = d\<lparr>subscriptions := subscriptions d @ [c_str prefix]\<rparr>"

definition unsubscribe :: "device \<Rightarrow> device" where
  "unsubscribe d = d\<lparr>subscriptions := []\<rparr>"

section \<open>Start-up\<close>

text \<open>The function \<open>setup()\<close> of \<open>example_device_group_fw.ino\<close> (the name alone is
  reserved in Isabelle).\<close>

definition setup_fw :: "device \<Rightarrow> device" where
  "setup_fw d =
     (let c = eeprom d;
          c' = (if version c = 0xFF
                then c\<lparr>version := EEPROM_VERSION,
                       userID := replicate (MAX_USER_ID_LEN + 1) NUL,
                       numGroups := 0,
                       deviceGroups := replicate MAX_DEVICE_GROUPS 0\<rparr>
                else c)
      in subscribe (userID c') (d\<lparr>config := c'\<rparr>))"

text \<open>\<open>readOrInitEEPROM\<close> and the start-up function of the second sketch.\<close>

definition readOrInitEEPROM :: "device \<Rightarrow> device" where
  "readOrInitEEPROM d =
     (let c = eeprom d;
          c' = (if version c = 0xFF
                then c\<lparr>version := EEPROM_VERSION,
                       userID := strcpy (userID c) ''000000'',
                       numGroups := 0,
                       deviceGroups := replicate MAX_DEVICE_GROUPS 0\<rparr>
                else c)
      in d\<lparr>config := c'\<rparr>)"

definition setup_part_000 :: "device \<Rightarrow> device" where
  "setup_part_000 d =
     (let d' = readOrInitEEPROM d in subscribe (userID (config d')) d')"

section \<open>The event callback\<close>

text \<open>The loop over the device groups, from index \<open>i\<close> up to the bound \<open>n\<close>:
  \<open>Some True\<close> when it breaks on a match, \<open>Some False\<close> when it runs to the end,
  \<open>None\<close> when it reads beyond the array. The comparison is between the \<open>uint32_t\<close>
  value parsed from the event and the \<open>uint8_t\<close> entry, promoted.\<close>

function group_loop :: "32 word \<Rightarrow> 8 word list \<Rightarrow> nat \<Rightarrow> nat \<Rightarrow> bool option" where
  "group_loop g gs n i =
     (if i < n then
        (if i < length gs then
           (if g = ucast (gs ! i) then Some True else group_loop g gs n (i + 1))
         else None)
      else Some False)"
  by pat_completeness auto
termination
  by (relation "measure (\<lambda>(g, gs, n, i). n - i)") auto

declare group_loop.simps [simp del]

text \<open>\<open>parseMessage\<close> of \<open>example_device_group_fw.ino\<close>. The constant
  \<open>particle::protocol::MAX_EVENT_NAME_LENGTH\<close> comes from the platform headers and is a
  parameter here, as is the result of \<open>System.deviceID()\<close>.\<close>

definition parseMessage :: "nat \<Rightarrow> string \<Rightarrow> string \<Rightarrow> string \<Rightarrow> device \<Rightarrow> device" where
  "parseMessage MAX_EVENT_NAME_LENGTH deviceID event data d =
     (let event_name = take (MAX_EVENT_NAME_LENGTH - 1) (c_str event) in
      case strtok event_name of
        None \<Rightarrow> d
      | Some (parsedUserID, rest1) \<Rightarrow>
          if parsedUserID \<noteq> c_str (userID (config d)) then d
          else
            (case strtok rest1 of
               None \<Rightarrow> d
             | Some (parsedFunction, rest2) \<Rightarrow>
                 let groupMatched =
                       (case strtok rest2 of
                          None \<Rightarrow> Some True
                        | Some (parsedGroup, rest3) \<Rightarrow>
                            if parsedGroup = c_str deviceID then Some True
                            else group_loop (word_of_int (strtol parsedGroup))
                                   (deviceGroups (config d))
                                   (unat (numGroups (config d))) 0);
                     result =
                       (case groupMatched of
                          None \<Rightarrow> Out_of_bounds_read
                        | Some False \<Rightarrow> Not_addressed
                        | Some True \<Rightarrow>
                            if parsedFunction = ''f1'' then Called function1 data
                            else if parsedFunction = ''f2'' then Called function2 data
                            else if parsedFunction = ''f3'' then Called function3 data
                            else Unknown_function parsedFunction)
                 in d\<lparr>outcomes := outcomes d @ [result]\<rparr>))"

text \<open>\<open>parseMessage\<close> of the second sketch: the string it copies and tokenizes is
  \<open>data\<close>, and its loop runs over all \<open>MAX_DEVICE_GROUPS\<close> entries.\<close>

definition parseMessage_part_000 :: "string \<Rightarrow> string \<Rightarrow> string \<Rightarrow> device \<Rightarrow> device" where
  "parseMessage_part_000 deviceID event data d =
     (let event_data = c_str data in
      case strtok event_data of
        None \<Rightarrow> d
      | Some (parsedUserID, rest1) \<Rightarrow>
          if parsedUserID \<noteq> c_str (userID (config d)) then d
          else
            (case strtok rest1 of
               None \<Rightarrow> d
             | Some (parsedFunction, rest2) \<Rightarrow>
                 let groupMatched =
                       (case strtok rest2 of
                          None \<Rightarrow> Some True
                        | Some (parsedGroup, rest3) \<Rightarrow>
                            if parsedGroup = c_str deviceID then Some True
                            else group_loop (word_of_int (strtol parsedGroup))
                                   (deviceGroups (config d))
                                   MAX_DEVICE_GROUPS 0);
                     result =
                       (case groupMatched of
                          None \<Rightarrow> Out_of_bounds_read
                        | Some False \<Rightarrow> Not_addressed
                        | Some True \<Rightarrow>
                            if parsedFunction = ''red'' then Called red data
                            else if parsedFunction = ''green'' then Called green data
                            else if parsedFunction = ''blue'' then Called blue data
                            else Unknown_function parsedFunction)
                 in d\<lparr>outcomes := outcomes d @ [result]\<rparr>))"

section \<open>The cloud functions\<close>

text \<open>The three functions are the same in both sketches. Each returns its \<open>int\<close> result
  and the new state.\<close>

definition addToGroup :: "string \<Rightarrow> device \<Rightarrow> int \<times> device" where
  "addToGroup extra d =
     (let parsedGroup = strtol (c_str extra) in
      if parsedGroup > 0 \<and> parsedGroup < 256 then
        if unat (numGroups (config d)) < MAX_DEVICE_GROUPS then
          let c = config d;
              c1 = c\<lparr>deviceGroups := (deviceGroups c)[unat (numGroups c) := word_of_int parsedGroup]\<rparr>;
              c2 = c1\<lparr>numGroups := numGroups c1 + 1\<rparr>
          in (parsedGroup, writeConfigToEEPROM (d\<lparr>config := c2\<rparr>))
        else (- 2, d)
      else (- 1, d))"

definition clearGroups :: "string \<Rightarrow> device \<Rightarrow> int \<times> device" where
  "clearGroups extra d =
     (0, writeConfigToEEPROM (d\<lparr>config := (config d)\<lparr>numGroups := 0\<rparr>\<rparr>))"

definition setUserID :: "string \<Rightarrow> device \<Rightarrow> int \<times> device" where
  "setUserID extra d =
     (if length (c_str extra) > 0 then
        let c = config d;
            c1 = c\<lparr>userID := strncpy (userID c) extra MAX_USER_ID_LEN\<rparr>;
            c2 = c1\<lparr>userID := (userID c1)[MAX_USER_ID_LEN := NUL]\<rparr>;
            d1 = writeConfigToEEPROM (d\<lparr>config := c2\<rparr>);
            d2 = unsubscribe d1;
            d3 = subscribe (userID (config d2)) d2
        in (0, d3)
      else (- 1, d))"

section \<open>Observations on a configuration\<close>

text \<open>The group membership: the first \<open>numGroups\<close> entries of \<open>deviceGroups\<close>.\<close>

definition members :: "DeviceConfig_t \<Rightarrow> 8 word list" where
  "members c = take (unat (numGroups c)) (deviceGroups c)"

text \<open>The invariants of the configuration: at most \<open>MAX_DEVICE_GROUPS\<close> groups, and a
  user ID of at most \<open>MAX_USER_ID_LEN\<close> characters with its terminator inside the array.\<close>

definition config_inv :: "DeviceConfig_t \<Rightarrow> bool" where
  "config_inv c =
     (unat (numGroups c) \<le> MAX_DEVICE_GROUPS
      \<and> length (c_str (userID c)) \<le> MAX_USER_ID_LEN
      \<and> NUL \<in> set (userID c))"

text \<open>A device at power-on whose EEPROM was never written: the global \<open>config\<close> is
  zero-initialised and every EEPROM byte reads \<open>0xFF\<close>.\<close>

definition erased_EEPROM :: DeviceConfig_t where
  "erased_EEPROM =
     \<lparr>version = 0xFF, userID = replicate 9 (CHR 0xFF), numGroups = 0xFF,
      deviceGroups = replicate 16 0xFF\<rparr>"

definition power_on :: device where
  "power_on =
     \<lparr>config = \<lparr>version = 0, userID = replicate 9 NUL, numGroups = 0,
                deviceGroups = replicate 16 0\<rparr>,
      eeprom = erased_EEPROM, subscriptions = [], outcomes = []\<rparr>"

text \<open>A segment of a topic: a non-empty string without the delimiter (and without a
  terminator, as it is part of a C string).\<close>

definition segment :: "string \<Rightarrow> bool" where
  "segment t = (t \<noteq> [] \<and> CHR ''/'' \<notin> set t \<and> NUL \<notin> set t)"

text \<open>The handler an outcome names, if it names one.\<close>

fun selected :: "outcome \<Rightarrow> handler option" where
  "selected (Called h payload) = Some h"
| "selected (Unknown_function c) = None"
| "selected Not_addressed = None"
| "selected Out_of_bounds_read = None"

text \<open>The calls the cloud can make on the device, and a sequence of them run in order
  (the integer results go back to the caller and are dropped here).\<close>

datatype cloud_call = AddToGroup string | ClearGroups string | SetUserID string

fun cloud :: "cloud_call \<Rightarrow> device \<Rightarrow> device" where
  "cloud (AddToGroup extra) d = snd (addToGroup extra d)"
| "cloud (ClearGroups extra) d = snd (clearGroups extra d)"
| "cloud (SetUserID extra) d = snd (setUserID extra d)"

definition cloud_calls :: "cloud_call list \<Rightarrow> device \<Rightarrow> device" where
  "cloud_calls cs d = fold cloud cs d"

text \<open>The device ID used in the examples: 24 hexadecimal digits, as in the comment
  above \<open>parseMessage\<close>.\<close>

definition example_deviceID :: string where
  "example_deviceID = ''e00fce68f5048fcadf1ea38a''"

text \<open>Sixteen calls that fill the membership with the groups 101 to 116.\<close>

definition sixteen_groups :: "cloud_call list" where
  "sixteen_groups =
     map AddToGroup
       [''101'', ''102'', ''103'', ''104'', ''105'', ''106'', ''107'', ''108'',
        ''109'', ''110'', ''111'', ''112'', ''113'', ''114'', ''115'', ''116'']"

section \<open>Facts about the libc model\<close>

lemma c_str_no_NUL: "NUL \<notin> set (c_str s)"
  unfolding c_str_def by (induction s) auto

lemma c_str_before_NUL: "NUL \<notin> set xs \<Longrightarrow> c_str (xs @ NUL # ys) = xs"
  unfolding c_str_def by (induction xs) auto

lemma c_str_self: "NUL \<notin> set xs \<Longrightarrow> c_str xs = xs"
  unfolding c_str_def by (induction xs) auto

lemma strtol_lower: "LONG_MIN \<le> strtol s"
  by (simp add: strtol_def Let_def LONG_MIN_def LONG_MAX_def)

lemma strtol_upper: "strtol s \<le> LONG_MAX"
  by (simp add: strtol_def Let_def LONG_MIN_def LONG_MAX_def)

section \<open>Adding the device to a group\<close>

lemma length_members:
  "struct_layout c \<Longrightarrow> length (members c) = min (unat (numGroups c)) 16"
  by (simp add: members_def struct_layout_def MAX_DEVICE_GROUPS_def)

lemma unat_numGroups_Suc:
  "unat (n :: 8 word) < 16 \<Longrightarrow> unat (n + 1) = unat n + 1"
  by (simp add: unat_word_ariths)

lemma members_append:
  assumes "struct_layout c" and "unat (numGroups c) < 16"
  shows "members (c\<lparr>deviceGroups := (deviceGroups c)[unat (numGroups c) := g],
                    numGroups := numGroups c + 1\<rparr>) = members c @ [g]"
proof -
  let ?n = "unat (numGroups c)"
  have len: "?n < length (deviceGroups c)"
    using assms by (simp add: struct_layout_def MAX_DEVICE_GROUPS_def)
  have "take (?n + 1) ((deviceGroups c)[?n := g]) = take ?n (deviceGroups c) @ [g]"
    using len by (simp add: take_Suc_conv_app_nth)
  then show ?thesis
    using assms(2) by (simp add: members_def unat_numGroups_Suc)
qed

text \<open>What a call that passes both checks does.\<close>

lemma addToGroup_ok:
  assumes "struct_layout (config d)"
    and "0 < strtol (c_str extra)" and "strtol (c_str extra) < 256"
    and "unat (numGroups (config d)) < 16"
  shows "fst (addToGroup extra d) = strtol (c_str extra)"
    and "members (config (snd (addToGroup extra d)))
           = members (config d) @ [word_of_int (strtol (c_str extra))]"
    and "struct_layout (config (snd (addToGroup extra d)))"
    and "unat (numGroups (config (snd (addToGroup extra d)))) = unat (numGroups (config d)) + 1"
    and "eeprom (snd (addToGroup extra d)) = config (snd (addToGroup extra d))"
proof -
  show "fst (addToGroup extra d) = strtol (c_str extra)"
    using assms by (simp add: addToGroup_def Let_def MAX_DEVICE_GROUPS_def)
  show "members (config (snd (addToGroup extra d)))
          = members (config d) @ [word_of_int (strtol (c_str extra))]"
    using assms members_append [OF assms(1) assms(4)]
    by (simp add: addToGroup_def Let_def MAX_DEVICE_GROUPS_def writeConfigToEEPROM_def)
  show "struct_layout (config (snd (addToGroup extra d)))"
    using assms
    by (simp add: addToGroup_def Let_def MAX_DEVICE_GROUPS_def writeConfigToEEPROM_def
        struct_layout_def)
  show "unat (numGroups (config (snd (addToGroup extra d)))) = unat (numGroups (config d)) + 1"
    using assms
    by (simp add: addToGroup_def Let_def MAX_DEVICE_GROUPS_def writeConfigToEEPROM_def
        unat_numGroups_Suc)
  show "eeprom (snd (addToGroup extra d)) = config (snd (addToGroup extra d))"
    using assms by (simp add: addToGroup_def Let_def MAX_DEVICE_GROUPS_def writeConfigToEEPROM_def)
qed

lemma layout_after_setup_fw: "struct_layout (config (setup_fw power_on))"
  by code_simp

lemma members_after_setup_fw: "members (config (setup_fw power_on)) = []"
  by code_simp

lemma strtol_5: "strtol (c_str ''5'') = 5"
  by code_simp

lemma strtol_7: "strtol (c_str ''7'') = 7"
  by code_simp

text \<open>
  Claim C5. For every input string and every device whose configuration has the layout of
  the struct: \<open>addToGroup\<close> returns -1 exactly when the value \<open>strtol\<close> reads from the
  string is outside 1..255 (so \<open>addToGroup("0")\<close> returns -1); it returns -2 exactly when
  the value is in that range and the membership already holds 16 entries; both leave the
  state as it was. In every other case it returns the value read, the membership is the
  old one with that value appended, the new configuration is the record in EEPROM, and
  nothing else changes.
\<close>

theorem addToGroup_result:
  assumes "struct_layout (config d)"
  shows "(fst (addToGroup extra d) = - 1 \<longleftrightarrow>
            \<not> (1 \<le> strtol (c_str extra) \<and> strtol (c_str extra) \<le> 255))
       \<and> (fst (addToGroup extra d) = - 2 \<longleftrightarrow>
            (1 \<le> strtol (c_str extra) \<and> strtol (c_str extra) \<le> 255)
            \<and> length (members (config d)) = 16)
       \<and> (fst (addToGroup extra d) = - 1 \<or> fst (addToGroup extra d) = - 2 \<longrightarrow>
            snd (addToGroup extra d) = d)
       \<and> (fst (addToGroup extra d) \<noteq> - 1 \<and> fst (addToGroup extra d) \<noteq> - 2 \<longrightarrow>
            fst (addToGroup extra d) = strtol (c_str extra)
            \<and> members (config (snd (addToGroup extra d)))
                = members (config d) @ [word_of_int (strtol (c_str extra))]
            \<and> uint (last (members (config (snd (addToGroup extra d))))) = strtol (c_str extra)
            \<and> eeprom (snd (addToGroup extra d)) = config (snd (addToGroup extra d))
            \<and> userID (config (snd (addToGroup extra d))) = userID (config d)
            \<and> version (config (snd (addToGroup extra d))) = version (config d)
            \<and> subscriptions (snd (addToGroup extra d)) = subscriptions d
            \<and> outcomes (snd (addToGroup extra d)) = outcomes d)
       \<and> fst (addToGroup ''0'' d) = - 1"
proof -
  let ?v = "strtol (c_str extra)"
  let ?n = "unat (numGroups (config d))"
  let ?main = "(fst (addToGroup extra d) = - 1 \<longleftrightarrow> \<not> (1 \<le> ?v \<and> ?v \<le> 255))
       \<and> (fst (addToGroup extra d) = - 2 \<longleftrightarrow>
            (1 \<le> ?v \<and> ?v \<le> 255) \<and> length (members (config d)) = 16)
       \<and> (fst (addToGroup extra d) = - 1 \<or> fst (addToGroup extra d) = - 2 \<longrightarrow>
            snd (addToGroup extra d) = d)
       \<and> (fst (addToGroup extra d) \<noteq> - 1 \<and> fst (addToGroup extra d) \<noteq> - 2 \<longrightarrow>
            fst (addToGroup extra d) = ?v
            \<and> members (config (snd (addToGroup extra d)))
                = members (config d) @ [word_of_int ?v]
            \<and> uint (last (members (config (snd (addToGroup extra d))))) = ?v
            \<and> eeprom (snd (addToGroup extra d)) = config (snd (addToGroup extra d))
            \<and> userID (config (snd (addToGroup extra d))) = userID (config d)
            \<and> version (config (snd (addToGroup extra d))) = version (config d)
            \<and> subscriptions (snd (addToGroup extra d)) = subscriptions d
            \<and> outcomes (snd (addToGroup extra d)) = outcomes d)"
  have full: "length (members (config d)) = 16 \<longleftrightarrow> \<not> ?n < 16"
    using assms by (auto simp: length_members)
  have zero: "strtol (c_str ''0'') = 0"
    by code_simp
  consider (bad) "\<not> (0 < ?v \<and> ?v < 256)"
    | (no_room) "0 < ?v" "?v < 256" "\<not> ?n < 16"
    | (ok) "0 < ?v" "?v < 256" "?n < 16"
    by blast
  then have main: ?main
  proof cases
    case bad
    then show ?thesis
      by (auto simp: addToGroup_def Let_def)
  next
    case no_room
    then show ?thesis
      using full by (auto simp: addToGroup_def Let_def MAX_DEVICE_GROUPS_def)
  next
    case ok
    have u: "uint (word_of_int ?v :: 8 word) = ?v"
      using ok by (simp add: uint_word_of_int take_bit_int_eq_self)
    have m: "members ((config d)\<lparr>deviceGroups :=
                 (deviceGroups (config d))[?n := word_of_int ?v],
               numGroups := numGroups (config d) + 1\<rparr>)
             = members (config d) @ [word_of_int ?v]"
      using members_append [OF assms ok(3)] .
    show ?thesis
      using ok u m full
      by (simp add: addToGroup_def Let_def MAX_DEVICE_GROUPS_def writeConfigToEEPROM_def)
  qed
  have "fst (addToGroup ''0'' d) = - 1"
    using zero by (simp add: addToGroup_def Let_def)
  with main show ?thesis by blast
qed

theorem addToGroup_result_witness:
  "struct_layout (config (setup_fw power_on))
   \<and> fst (addToGroup ''7'' (setup_fw power_on)) = 7
   \<and> members (config (snd (addToGroup ''7'' (setup_fw power_on)))) = [7]
   \<and> addToGroup ''0'' (setup_fw power_on) = (- 1, setup_fw power_on)
   \<and> struct_layout (config (cloud_calls sixteen_groups (setup_fw power_on)))
   \<and> addToGroup ''117'' (cloud_calls sixteen_groups (setup_fw power_on))
       = (- 2, cloud_calls sixteen_groups (setup_fw power_on))"
proof -
  let ?full = "cloud_calls sixteen_groups (setup_fw power_on)"
  have l: "struct_layout (config ?full)"
    by code_simp
  have m: "length (members (config ?full)) = 16"
    by code_simp
  have v: "strtol (c_str ''117'') = 117"
    by code_simp
  have ok: "fst (addToGroup ''7'' (setup_fw power_on)) = 7
            \<and> members (config (snd (addToGroup ''7'' (setup_fw power_on)))) = [7]"
    using addToGroup_result [OF layout_after_setup_fw, of "''7''"]
      members_after_setup_fw strtol_7
    by simp
  have bad: "fst (addToGroup ''0'' (setup_fw power_on)) = - 1
             \<and> snd (addToGroup ''0'' (setup_fw power_on)) = setup_fw power_on"
    using addToGroup_result [OF layout_after_setup_fw, of "''0''"] by blast
  have full: "fst (addToGroup ''117'' ?full) = - 2 \<and> snd (addToGroup ''117'' ?full) = ?full"
    using addToGroup_result [OF l, of "''117''"] m v by simp
  show ?thesis
    using ok bad full l layout_after_setup_fw by (simp add: prod_eq_iff)
qed

text \<open>
  Claim C6. \<open>addToGroup\<close> does not look for duplicates: for every device whose
  membership has fewer than 15 entries, two calls of \<open>addToGroup("5")\<close> in a row both
  return 5 and leave the membership equal to the old one followed by 5 and 5.
\<close>

theorem addToGroup_twice_no_dedup:
  assumes "struct_layout (config d)" and "length (members (config d)) < 15"
  shows "fst (addToGroup ''5'' d) = 5
       \<and> fst (addToGroup ''5'' (snd (addToGroup ''5'' d))) = 5
       \<and> members (config (snd (addToGroup ''5'' (snd (addToGroup ''5'' d)))))
           = members (config d) @ [5, 5]"
proof -
  let ?d1 = "snd (addToGroup ''5'' d)"
  have n: "unat (numGroups (config d)) < 15"
    using assms by (simp add: length_members)
  then have n0: "unat (numGroups (config d)) < 16" by simp
  have v: "0 < strtol (c_str ''5'')" "strtol (c_str ''5'') < 256"
    by (simp_all add: strtol_5)
  note first = addToGroup_ok [OF assms(1) v n0]
  have n1: "unat (numGroups (config ?d1)) < 16"
    using first(4) n by simp
  note second = addToGroup_ok [OF first(3) v n1]
  show ?thesis
    using first(1,2) second(1,2) by (simp add: strtol_5)
qed

theorem addToGroup_twice_no_dedup_witness:
  "struct_layout (config (setup_fw power_on))
   \<and> length (members (config (setup_fw power_on))) < 15
   \<and> members (config (snd (addToGroup ''5'' (snd (addToGroup ''5'' (setup_fw power_on))))))
       = [5, 5]"
proof -
  have h: "length (members (config (setup_fw power_on))) < 15"
    by (simp add: members_after_setup_fw)
  show ?thesis
    using addToGroup_twice_no_dedup [OF layout_after_setup_fw h]
      layout_after_setup_fw members_after_setup_fw
    by simp
qed

section \<open>Setting the user ID\<close>

text \<open>The nine bytes of \<open>userID\<close> after \<open>strncpy\<close> and the forced terminator.\<close>

lemma userID_written:
  assumes "length buf = 9"
  shows "(strncpy buf src 8)[8 := NUL]
           = take 8 (c_str src) @ replicate (8 - length (c_str src)) NUL @ [NUL]"
proof -
  let ?pre = "take 8 (c_str src) @ replicate (8 - length (c_str src)) NUL"
  have l: "length ?pre = 8"
    by auto
  obtain b where b: "drop 8 buf = [b]"
    using assms
    by (cases "drop 8 buf")
      (auto simp: drop_eq_Nil length_Suc_conv dest!: arg_cong [where f = length])
  have "(strncpy buf src 8)[8 := NUL] = (?pre @ [b])[8 := NUL]"
    by (simp add: strncpy_def b)
  also have "\<dots> = ?pre @ [NUL]"
    using l by (metis list_update_length)
  finally show ?thesis by simp
qed

lemma c_str_userID_written:
  "c_str (take 8 (c_str src) @ replicate (8 - length (c_str src)) NUL @ [NUL])
     = take 8 (c_str src)"
proof -
  have nn: "NUL \<notin> set (take 8 (c_str src))"
    using c_str_no_NUL by (meson in_set_takeD)
  have "replicate (8 - length (c_str src)) NUL @ [NUL]
          = NUL # replicate (8 - length (c_str src)) NUL"
    by (simp add: replicate_append_same)
  then show ?thesis
    using c_str_before_NUL [OF nn] by simp
qed

text \<open>What an accepted call does.\<close>

lemma setUserID_ok:
  assumes "c_str extra \<noteq> []" and "struct_layout (config d)"
  shows "userID (config (snd (setUserID extra d)))
           = take 8 (c_str extra) @ replicate (8 - length (c_str extra)) NUL @ [NUL]"
    and "fst (setUserID extra d) = 0
       \<and> eeprom (snd (setUserID extra d)) = config (snd (setUserID extra d))
       \<and> subscriptions (snd (setUserID extra d))
           = [c_str (userID (config (snd (setUserID extra d))))]
       \<and> version (config (snd (setUserID extra d))) = version (config d)
       \<and> numGroups (config (snd (setUserID extra d))) = numGroups (config d)
       \<and> deviceGroups (config (snd (setUserID extra d))) = deviceGroups (config d)
       \<and> outcomes (snd (setUserID extra d)) = outcomes d"
proof -
  have len: "length (userID (config d)) = 9"
    using assms(2) by (simp add: struct_layout_def MAX_USER_ID_LEN_def)
  show "userID (config (snd (setUserID extra d)))
          = take 8 (c_str extra) @ replicate (8 - length (c_str extra)) NUL @ [NUL]"
    using assms(1) userID_written [OF len, of extra]
    by (simp add: setUserID_def Let_def MAX_USER_ID_LEN_def writeConfigToEEPROM_def
        unsubscribe_def subscribe_def)
  show "fst (setUserID extra d) = 0
       \<and> eeprom (snd (setUserID extra d)) = config (snd (setUserID extra d))
       \<and> subscriptions (snd (setUserID extra d))
           = [c_str (userID (config (snd (setUserID extra d))))]
       \<and> version (config (snd (setUserID extra d))) = version (config d)
       \<and> numGroups (config (snd (setUserID extra d))) = numGroups (config d)
       \<and> deviceGroups (config (snd (setUserID extra d))) = deviceGroups (config d)
       \<and> outcomes (snd (setUserID extra d)) = outcomes d"
    using assms(1)
    by (simp add: setUserID_def Let_def MAX_USER_ID_LEN_def writeConfigToEEPROM_def
        unsubscribe_def subscribe_def)
qed

lemma userID_terminated:
  "(take 8 (c_str extra) @ replicate (8 - length (c_str extra)) NUL @ [NUL]) ! 8 = NUL"
proof -
  have "length (take 8 (c_str extra) @ replicate (8 - length (c_str extra)) NUL) = 8"
    by auto
  then have "((take 8 (c_str extra) @ replicate (8 - length (c_str extra)) NUL) @ [NUL]) ! 8
               = NUL"
    by (metis nth_append_length)
  then show ?thesis by simp
qed

text \<open>
  Claim C7. For every state of the device, \<open>setUserID\<close> called with the empty string
  returns -1 and returns the state as it was: the configuration in memory (the stored
  user ID with it), the record in EEPROM and the subscriptions are all unchanged.
\<close>

theorem setUserID_empty_rejected:
  "setUserID '''' d = (- 1, d)"
  by (simp add: setUserID_def c_str_def)

text \<open>
  Claim C8. For every non-empty input string and every device whose configuration has
  the layout of the struct: \<open>setUserID\<close> returns 0; the stored user ID reads as the
  first 8 characters of the input (the whole input when it is shorter), inside an array
  of 9 bytes whose last byte is the terminator; the new configuration is the record in
  EEPROM; the device is subscribed to the new user ID alone; and no other field changes.
\<close>

theorem setUserID_stores_prefix:
  assumes "c_str extra \<noteq> []" and "struct_layout (config d)"
  shows "fst (setUserID extra d) = 0
       \<and> c_str (userID (config (snd (setUserID extra d)))) = take 8 (c_str extra)
       \<and> length (userID (config (snd (setUserID extra d)))) = 9
       \<and> userID (config (snd (setUserID extra d))) ! 8 = NUL
       \<and> eeprom (snd (setUserID extra d)) = config (snd (setUserID extra d))
       \<and> subscriptions (snd (setUserID extra d)) = [take 8 (c_str extra)]
       \<and> version (config (snd (setUserID extra d))) = version (config d)
       \<and> numGroups (config (snd (setUserID extra d))) = numGroups (config d)
       \<and> deviceGroups (config (snd (setUserID extra d))) = deviceGroups (config d)
       \<and> outcomes (snd (setUserID extra d)) = outcomes d"
proof -
  note ok = setUserID_ok [OF assms]
  show ?thesis
    using ok(2) by (simp add: ok(1) c_str_userID_written userID_terminated)
qed

theorem setUserID_stores_prefix_witness:
  "c_str ''abcdefghij'' \<noteq> [] \<and> struct_layout (config (setup_fw power_on))
   \<and> fst (setUserID ''abcdefghij'' (setup_fw power_on)) = 0
   \<and> c_str (userID (config (snd (setUserID ''abcdefghij'' (setup_fw power_on)))))
       = ''abcdefgh''"
proof -
  have c: "c_str ''abcdefghij'' = ''abcdefghij''"
    by code_simp
  then have h: "c_str ''abcdefghij'' \<noteq> []"
    by simp
  show ?thesis
    using setUserID_stores_prefix [OF h layout_after_setup_fw] layout_after_setup_fw c
    by simp
qed

section \<open>The invariants of the configuration\<close>

lemma config_parseMessage: "config (parseMessage m dev ev da d) = config d"
  by (simp add: parseMessage_def Let_def split: option.splits prod.splits)

lemma config_parseMessage_part_000: "config (parseMessage_part_000 dev ev da d) = config d"
  by (simp add: parseMessage_part_000_def Let_def split: option.splits prod.splits)

lemma strcpy_default:
  "strcpy buf ''000000'' = ''000000'' @ NUL # drop 7 buf"
proof -
  have "c_str ''000000'' = ''000000''"
    by code_simp
  then show ?thesis
    by (simp add: strcpy_def eval_nat_numeral)
qed

lemma c_str_default: "c_str (''000000'' @ NUL # rest) = ''000000''"
proof -
  have "NUL \<notin> set ''000000''"
    by (simp add: NUL_def)
  then show ?thesis
    by (rule c_str_before_NUL)
qed

lemma config_inv_setup_fw:
  assumes "version (eeprom d) = 0xFF"
  shows "config_inv (config (setup_fw d))"
  using assms
  by (simp add: setup_fw_def Let_def subscribe_def config_inv_def MAX_DEVICE_GROUPS_def
      MAX_USER_ID_LEN_def c_str_def)

lemma layout_setup_fw:
  assumes "version (eeprom d) = 0xFF"
  shows "struct_layout (config (setup_fw d))"
  using assms
  by (simp add: setup_fw_def Let_def subscribe_def struct_layout_def)

lemma config_inv_setup_part_000:
  assumes "version (eeprom d) = 0xFF"
  shows "config_inv (config (setup_part_000 d))"
proof -
  have u: "userID (config (setup_part_000 d)) = ''000000'' @ NUL # drop 7 (userID (eeprom d))"
    using assms
    by (simp add: setup_part_000_def readOrInitEEPROM_def Let_def subscribe_def strcpy_default)
  have n: "numGroups (config (setup_part_000 d)) = 0"
    using assms
    by (simp add: setup_part_000_def readOrInitEEPROM_def Let_def subscribe_def)
  show ?thesis
    unfolding config_inv_def u c_str_default n
    by (simp add: MAX_USER_ID_LEN_def)
qed

lemma layout_setup_part_000:
  assumes "version (eeprom d) = 0xFF" and "struct_layout (eeprom d)"
  shows "struct_layout (config (setup_part_000 d))"
  using assms
  by (simp add: setup_part_000_def readOrInitEEPROM_def Let_def subscribe_def strcpy_default
      struct_layout_def MAX_USER_ID_LEN_def)

lemma config_inv_addToGroup:
  assumes "config_inv (config d)"
  shows "config_inv (config (snd (addToGroup x d)))"
  using assms
  by (auto simp: addToGroup_def Let_def config_inv_def writeConfigToEEPROM_def
      MAX_DEVICE_GROUPS_def unat_numGroups_Suc)

lemma layout_addToGroup:
  assumes "struct_layout (config d)"
  shows "struct_layout (config (snd (addToGroup x d)))"
  using assms
  by (simp add: addToGroup_def Let_def struct_layout_def writeConfigToEEPROM_def)

lemma config_inv_clearGroups:
  assumes "config_inv (config d)"
  shows "config_inv (config (snd (clearGroups x d)))"
  using assms
  by (simp add: clearGroups_def config_inv_def writeConfigToEEPROM_def)

lemma layout_clearGroups:
  assumes "struct_layout (config d)"
  shows "struct_layout (config (snd (clearGroups x d)))"
  using assms
  by (simp add: clearGroups_def struct_layout_def writeConfigToEEPROM_def)

lemma config_inv_setUserID:
  assumes "config_inv (config d)" and "struct_layout (config d)"
  shows "config_inv (config (snd (setUserID x d)))"
proof (cases "c_str x = []")
  case True
  then show ?thesis using assms by (simp add: setUserID_def)
next
  case False
  note ok = setUserID_ok [OF False assms(2)]
  have "NUL \<in> set (userID (config (snd (setUserID x d))))"
    by (simp add: ok(1))
  moreover have "c_str (userID (config (snd (setUserID x d)))) = take 8 (c_str x)"
    by (simp add: ok(1) c_str_userID_written)
  ultimately show ?thesis
    using assms(1) ok(2) by (simp add: config_inv_def MAX_USER_ID_LEN_def)
qed

lemma layout_setUserID:
  assumes "struct_layout (config d)"
  shows "struct_layout (config (snd (setUserID x d)))"
proof (cases "c_str x = []")
  case True
  then show ?thesis using assms by (simp add: setUserID_def)
next
  case False
  note ok = setUserID_ok [OF False assms]
  show ?thesis
    using assms ok(2) by (auto simp: struct_layout_def ok(1) MAX_USER_ID_LEN_def)
qed

text \<open>
  Claim C9. The invariants \<open>numGroups \<le> 16\<close> and "the user ID has at most 8
  characters and its terminator lies inside the array" hold after the default
  initialization of either sketch (an EEPROM whose version byte reads \<open>0xFF\<close>), and
  \<open>addToGroup\<close>, \<open>clearGroups\<close>, \<open>setUserID\<close> and \<open>parseMessage\<close> (of either
  sketch) each take a configuration that satisfies them, and has the layout of the
  struct, to one that still does.
\<close>

theorem config_inv_established_and_preserved:
  "(version (eeprom d0) = 0xFF \<and> struct_layout (eeprom d0) \<longrightarrow>
       config_inv (config (setup_fw d0)) \<and> struct_layout (config (setup_fw d0))
     \<and> config_inv (config (setup_part_000 d0)) \<and> struct_layout (config (setup_part_000 d0)))
   \<and> (config_inv (config d) \<and> struct_layout (config d) \<longrightarrow>
       config_inv (config (snd (addToGroup x d))) \<and> struct_layout (config (snd (addToGroup x d)))
     \<and> config_inv (config (snd (clearGroups x d))) \<and> struct_layout (config (snd (clearGroups x d)))
     \<and> config_inv (config (snd (setUserID x d))) \<and> struct_layout (config (snd (setUserID x d)))
     \<and> config_inv (config (parseMessage m dev ev da d))
     \<and> struct_layout (config (parseMessage m dev ev da d))
     \<and> config_inv (config (parseMessage_part_000 dev ev da d))
     \<and> struct_layout (config (parseMessage_part_000 dev ev da d)))"
  using config_inv_setup_fw [of d0] layout_setup_fw [of d0]
    config_inv_setup_part_000 [of d0] layout_setup_part_000 [of d0]
    config_inv_addToGroup [of d x] layout_addToGroup [of d x]
    config_inv_clearGroups [of d x] layout_clearGroups [of d x]
    config_inv_setUserID [of d x] layout_setUserID [of d x]
  by (simp add: config_parseMessage config_parseMessage_part_000)

theorem config_inv_established_and_preserved_witness:
  "version (eeprom power_on) = 0xFF \<and> struct_layout (eeprom power_on)
   \<and> config_inv (config (setup_fw power_on)) \<and> struct_layout (config (setup_fw power_on))
   \<and> config_inv (config (snd (addToGroup ''7'' (setup_fw power_on))))
   \<and> config_inv (config (snd (setUserID ''abcdefghij'' (setup_part_000 power_on))))"
proof -
  have h: "version (eeprom power_on) = 0xFF \<and> struct_layout (eeprom power_on)"
    by code_simp
  have a: "config_inv (config (setup_fw power_on)) \<and> struct_layout (config (setup_fw power_on))"
    using config_inv_established_and_preserved [of power_on] h by blast
  have b: "config_inv (config (setup_part_000 power_on))
           \<and> struct_layout (config (setup_part_000 power_on))"
    using config_inv_established_and_preserved [of power_on] h by blast
  have "config_inv (config (snd (addToGroup ''7'' (setup_fw power_on))))"
    using config_inv_established_and_preserved [of _ "setup_fw power_on" "''7''"] a by blast
  moreover have "config_inv (config (snd (setUserID ''abcdefghij'' (setup_part_000 power_on))))"
    using config_inv_established_and_preserved [of _ "setup_part_000 power_on" "''abcdefghij''"] b
    by blast
  ultimately show ?thesis
    using h a by blast
qed

section \<open>Tokens\<close>

lemma strtok_segment_more:
  assumes "segment t"
  shows "strtok (t @ CHR ''/'' # r) = Some (t, r)"
proof -
  obtain c cs where t: "t = c # cs" and c: "c \<noteq> CHR ''/''"
    using assms by (cases t) (auto simp: segment_def)
  have all: "\<And>x. x \<in> set t \<Longrightarrow> x \<noteq> CHR ''/''"
    using assms by (auto simp: segment_def)
  have d: "dropWhile (\<lambda>c. c = CHR ''/'') (t @ CHR ''/'' # r) = t @ CHR ''/'' # r"
    using c by (simp add: t)
  have tw: "takeWhile (\<lambda>c. c \<noteq> CHR ''/'') (t @ CHR ''/'' # r) = t"
    using all by (simp add: takeWhile_tail)
  have dw: "dropWhile (\<lambda>c. c \<noteq> CHR ''/'') (t @ CHR ''/'' # r) = CHR ''/'' # r"
    using all by (simp add: dropWhile_append)
  show ?thesis
    unfolding strtok_def Let_def d tw dw using t by simp
qed

lemma strtok_segment_last:
  assumes "segment t"
  shows "strtok t = Some (t, [])"
proof -
  obtain c cs where t: "t = c # cs" and c: "c \<noteq> CHR ''/''"
    using assms by (cases t) (auto simp: segment_def)
  have all: "\<And>x. x \<in> set t \<Longrightarrow> x \<noteq> CHR ''/''"
    using assms by (auto simp: segment_def)
  have d: "dropWhile (\<lambda>c. c = CHR ''/'') t = t"
    using c by (simp add: t)
  have tw: "takeWhile (\<lambda>c. c \<noteq> CHR ''/'') t = t"
    using all by simp
  have dw: "dropWhile (\<lambda>c. c \<noteq> CHR ''/'') t = []"
    using all by simp
  show ?thesis
    unfolding strtok_def Let_def d tw dw using t by simp
qed

lemma strtok_leading_slash: "strtok (CHR ''/'' # s) = strtok s"
  by (simp add: strtok_def)

lemma strtok_empty: "strtok [] = None"
  by (simp add: strtok_def)

text \<open>No token is empty, and no token holds a delimiter.\<close>

lemma strtok_token:
  assumes "strtok s = Some (t, r)"
  shows "t \<noteq> [] \<and> CHR ''/'' \<notin> set t"
proof -
  let ?s' = "dropWhile (\<lambda>c. c = CHR ''/'') s"
  have ne: "?s' \<noteq> []" and t: "t = takeWhile (\<lambda>c. c \<noteq> CHR ''/'') ?s'"
    using assms by (auto simp: strtok_def Let_def split: if_splits)
  have "hd ?s' \<noteq> CHR ''/''"
    using ne by (metis (mono_tags, lifting) hd_dropWhile)
  then have "t \<noteq> []"
    using ne t by (simp add: takeWhile_eq_Nil_iff)
  moreover have "CHR ''/'' \<notin> set t"
    unfolding t by (auto dest: set_takeWhileD)
  ultimately show ?thesis by simp
qed

section \<open>The loop over the groups\<close>

lemma group_loop_spec:
  assumes "n \<le> length gs"
  shows "group_loop g gs n i = Some (\<exists>k. i \<le> k \<and> k < n \<and> g = ucast (gs ! k))"
  using assms
proof (induction g gs n i rule: group_loop.induct)
  case (1 g gs n i)
  show ?case
  proof (cases "i < n")
    case False
    then have "group_loop g gs n i = Some False"
      by (subst group_loop.simps) simp
    moreover have "\<not> (\<exists>k. i \<le> k \<and> k < n \<and> g = ucast (gs ! k))"
      using False by auto
    ultimately show ?thesis by simp
  next
    case True
    then have il: "i < length gs"
      using "1.prems" by simp
    show ?thesis
    proof (cases "g = ucast (gs ! i)")
      case hit: True
      have "group_loop g gs n i = Some True"
        by (subst group_loop.simps) (simp add: True il hit)
      moreover have "\<exists>k. i \<le> k \<and> k < n \<and> g = ucast (gs ! k)"
        using True hit by blast
      ultimately show ?thesis by simp
    next
      case miss: False
      have step: "group_loop g gs n i = group_loop g gs n (i + 1)"
        by (subst group_loop.simps) (simp add: True il miss)
      have ih: "group_loop g gs n (i + 1)
                  = Some (\<exists>k. i + 1 \<le> k \<and> k < n \<and> g = ucast (gs ! k))"
        using "1.IH" [OF True il miss "1.prems"] .
      have "(\<exists>k. i + 1 \<le> k \<and> k < n \<and> g = ucast (gs ! k))
              \<longleftrightarrow> (\<exists>k. i \<le> k \<and> k < n \<and> g = ucast (gs ! k))"
      proof
        assume "\<exists>k. i + 1 \<le> k \<and> k < n \<and> g = ucast (gs ! k)"
        then obtain k where "i + 1 \<le> k" "k < n" "g = ucast (gs ! k)" by blast
        then have "i \<le> k \<and> k < n \<and> g = ucast (gs ! k)" by simp
        then show "\<exists>k. i \<le> k \<and> k < n \<and> g = ucast (gs ! k)" ..
      next
        assume "\<exists>k. i \<le> k \<and> k < n \<and> g = ucast (gs ! k)"
        then obtain k where k: "i \<le> k" "k < n" "g = ucast (gs ! k)" by blast
        then have "k \<noteq> i" using miss by blast
        then have "i + 1 \<le> k \<and> k < n \<and> g = ucast (gs ! k)" using k by simp
        then show "\<exists>k. i + 1 \<le> k \<and> k < n \<and> g = ucast (gs ! k)" ..
      qed
      then show ?thesis
        using step ih by simp
    qed
  qed
qed

text \<open>The comparison of the parsed \<open>uint32_t\<close> with a \<open>uint8_t\<close> entry is the
  comparison of the value \<open>strtol\<close> returned with the entry.\<close>

lemma parsed_group_eq:
  assumes "LONG_MIN \<le> v" and "v \<le> LONG_MAX"
  shows "(word_of_int v :: 32 word) = ucast (x :: 8 word) \<longleftrightarrow> v = uint x"
proof -
  have x: "0 \<le> uint x" "uint x < 256"
    using uint_bounded [of x] by simp_all
  have u: "(ucast x :: 32 word) = word_of_int (uint x)"
    by (rule ucast_eq)
  have tx: "take_bit 32 (uint x) = uint x"
    using x by (simp add: take_bit_int_eq_self)
  have "(word_of_int v :: 32 word) = ucast x \<longleftrightarrow> take_bit 32 v = uint x"
    unfolding u word_of_int_eq_iff using tx by simp
  also have "\<dots> \<longleftrightarrow> v = uint x"
  proof (cases "0 \<le> v")
    case True
    then have "take_bit 32 v = v"
      using assms by (simp add: LONG_MAX_def take_bit_int_eq_self)
    then show ?thesis by simp
  next
    case False
    have "(v + 4294967296) mod 4294967296 = v + 4294967296"
      using False assms by (intro mod_pos_pos_trivial) (simp_all add: LONG_MIN_def)
    then have "v mod 4294967296 = v + 4294967296"
      by simp
    then have t: "take_bit 32 v = v + 4294967296"
      by (simp add: take_bit_eq_mod)
    have "- 2147483648 \<le> v"
      using assms by (simp add: LONG_MIN_def)
    then have "take_bit 32 v \<noteq> uint x"
      unfolding t using x(2) by linarith
    moreover have "v \<noteq> uint x"
      using x(1) False by linarith
    ultimately show ?thesis by simp
  qed
  finally show ?thesis .
qed

lemma group_loop_members:
  assumes "struct_layout c" and "unat (numGroups c) \<le> 16"
  shows "group_loop (word_of_int (strtol s)) (deviceGroups c) (unat (numGroups c)) 0
           = Some (strtol s \<in> uint ` set (members c))"
proof -
  let ?n = "unat (numGroups c)"
  let ?gs = "deviceGroups c"
  have n: "?n \<le> length ?gs"
    using assms by (simp add: struct_layout_def MAX_DEVICE_GROUPS_def)
  have "(\<exists>k. 0 \<le> k \<and> k < ?n \<and> (word_of_int (strtol s) :: 32 word) = ucast (?gs ! k))
        \<longleftrightarrow> (\<exists>k < ?n. strtol s = uint (?gs ! k))"
    by (simp add: parsed_group_eq [OF strtol_lower strtol_upper])
  also have "\<dots> \<longleftrightarrow> strtol s \<in> uint ` set (take ?n ?gs)"
    unfolding nth_image [OF n, symmetric] by auto
  finally show ?thesis
    using group_loop_spec [OF n, of "word_of_int (strtol s)" 0] by (simp add: members_def)
qed

section \<open>The event callback of \<open>example_device_group_fw.ino\<close>\<close>

lemma event_name_fits:
  assumes "NUL \<notin> set ev" and "length ev < m"
  shows "take (m - 1) (c_str ev) = ev"
  using assms by (simp add: c_str_self)

lemma segment_no_NUL: "segment t \<Longrightarrow> NUL \<notin> set t"
  by (simp add: segment_def)

text \<open>A topic of two segments: the command is run, whatever the groups are.\<close>

lemma parseMessage_two_segments:
  assumes "segment U" and "segment C"
    and "c_str (userID (config d)) = U"
    and "length (U @ ''/'' @ C) < m"
  shows "parseMessage m dev (U @ ''/'' @ C) data d
           = d\<lparr>outcomes := outcomes d @
                 [if C = ''f1'' then Called function1 data
                  else if C = ''f2'' then Called function2 data
                  else if C = ''f3'' then Called function3 data
                  else Unknown_function C]\<rparr>"
proof -
  have "NUL \<notin> set (U @ ''/'' @ C)"
    using assms(1,2) by (simp add: segment_def NUL_def)
  then have ev: "take (m - 1) (c_str (U @ ''/'' @ C)) = U @ CHR ''/'' # C"
    using event_name_fits [OF _ assms(4)] by simp
  show ?thesis
    unfolding parseMessage_def Let_def ev
    by (simp add: strtok_segment_more [OF assms(1)] strtok_segment_last [OF assms(2)]
        strtok_empty assms(3))
qed

text \<open>A topic of three segments: the command is run when the third segment is the
  device ID or, read as a number, is in the membership; otherwise it is not.\<close>

lemma parseMessage_three_segments:
  assumes "segment U" and "segment C" and "segment S"
    and "c_str (userID (config d)) = U"
    and "length (U @ ''/'' @ C @ ''/'' @ S) < m"
    and "struct_layout (config d)" and "unat (numGroups (config d)) \<le> 16"
  shows "parseMessage m dev (U @ ''/'' @ C @ ''/'' @ S) data d
           = d\<lparr>outcomes := outcomes d @
                 [if S = c_str dev \<or> strtol S \<in> uint ` set (members (config d))
                  then (if C = ''f1'' then Called function1 data
                        else if C = ''f2'' then Called function2 data
                        else if C = ''f3'' then Called function3 data
                        else Unknown_function C)
                  else Not_addressed]\<rparr>"
proof -
  have "NUL \<notin> set (U @ ''/'' @ C @ ''/'' @ S)"
    using assms(1,2,3) by (simp add: segment_def NUL_def)
  then have ev: "take (m - 1) (c_str (U @ ''/'' @ C @ ''/'' @ S))
                   = U @ CHR ''/'' # (C @ CHR ''/'' # S)"
    using event_name_fits [OF _ assms(5)] by simp
  note loop = group_loop_members [OF assms(6,7), of S]
  show ?thesis
    unfolding parseMessage_def Let_def ev
    by (simp add: strtok_segment_more [OF assms(1)] strtok_segment_more [OF assms(2)]
        strtok_segment_last [OF assms(3)] assms(4) loop)
qed

text \<open>The payload is handed to the handler and decides nothing.\<close>

lemma parseMessage_payload_unexamined:
  "map selected (outcomes (parseMessage m dev ev data d))
     = map selected (outcomes (parseMessage m dev ev data' d))
   \<and> (\<forall>h p. Called h p \<in> set (outcomes (parseMessage m dev ev data d))
          \<longrightarrow> Called h p \<in> set (outcomes d) \<or> p = data)"
  by (simp add: parseMessage_def Let_def split: option.splits prod.splits bool.splits)

text \<open>Doubled delimiters are skipped: \<open>U//C\<close> is read as \<open>U/C\<close>.\<close>

lemma parseMessage_doubled_slash:
  assumes "segment U" and "segment C"
    and "c_str (userID (config d)) = U"
    and "length (U @ ''//'' @ C) < m"
  shows "parseMessage m dev (U @ ''//'' @ C) data d
           = d\<lparr>outcomes := outcomes d @
                 [if C = ''f1'' then Called function1 data
                  else if C = ''f2'' then Called function2 data
                  else if C = ''f3'' then Called function3 data
                  else Unknown_function C]\<rparr>"
proof -
  have "NUL \<notin> set (U @ ''//'' @ C)"
    using assms(1,2) by (simp add: segment_def NUL_def)
  then have ev: "take (m - 1) (c_str (U @ ''//'' @ C)) = U @ CHR ''/'' # (CHR ''/'' # C)"
    using event_name_fits [OF _ assms(4)] by simp
  show ?thesis
    unfolding parseMessage_def Let_def ev
    by (simp add: strtok_segment_more [OF assms(1)] strtok_leading_slash
        strtok_segment_last [OF assms(2)] strtok_empty assms(3))
qed

text \<open>The device ID as third segment: the command is run, whatever the groups are.\<close>

lemma parseMessage_own_deviceID:
  assumes "segment U" and "segment C" and "segment (c_str dev)"
    and "c_str (userID (config d)) = U"
    and "length (U @ ''/'' @ C @ ''/'' @ c_str dev) < m"
    and "struct_layout (config d)" and "unat (numGroups (config d)) \<le> 16"
  shows "parseMessage m dev (U @ ''/'' @ C @ ''/'' @ c_str dev) data d
           = d\<lparr>outcomes := outcomes d @
                 [if C = ''f1'' then Called function1 data
                  else if C = ''f2'' then Called function2 data
                  else if C = ''f3'' then Called function3 data
                  else Unknown_function C]\<rparr>"
  using parseMessage_three_segments [OF assms] by simp

section \<open>Memberships built by the cloud functions\<close>

lemma members_cloud:
  assumes "struct_layout (config d)" and "unat (numGroups (config d)) \<le> 16"
    and "0 \<notin> set (members (config d))"
  shows "struct_layout (config (cloud c d)) \<and> unat (numGroups (config (cloud c d))) \<le> 16
       \<and> 0 \<notin> set (members (config (cloud c d)))"
proof (cases c)
  case (AddToGroup extra)
  let ?v = "strtol (c_str extra)"
  show ?thesis
  proof (cases "0 < ?v \<and> ?v < 256 \<and> unat (numGroups (config d)) < 16")
    case True
    then have v: "0 < ?v" "?v < 256" and n: "unat (numGroups (config d)) < 16"
      by simp_all
    note ok = addToGroup_ok [OF assms(1) v n]
    have "uint (word_of_int ?v :: 8 word) = ?v"
      using v by (simp add: uint_word_of_int take_bit_int_eq_self)
    then have "(word_of_int ?v :: 8 word) \<noteq> 0"
      using v by force
    then show ?thesis
      using ok assms(3) n by (simp add: AddToGroup)
  next
    case False
    then have "snd (addToGroup extra d) = d"
      by (auto simp: addToGroup_def Let_def MAX_DEVICE_GROUPS_def)
    then show ?thesis
      using assms by (simp add: AddToGroup)
  qed
next
  case (ClearGroups extra)
  then show ?thesis
    using assms(1)
    by (simp add: clearGroups_def writeConfigToEEPROM_def struct_layout_def members_def)
next
  case (SetUserID extra)
  show ?thesis
  proof (cases "c_str extra = []")
    case True
    then show ?thesis
      using assms by (simp add: SetUserID setUserID_def)
  next
    case False
    note ok = setUserID_ok [OF False assms(1)]
    have "struct_layout (config (snd (setUserID extra d)))"
      using assms(1) ok(2) by (auto simp: struct_layout_def ok(1) MAX_USER_ID_LEN_def)
    then show ?thesis
      using assms ok(2) by (simp add: SetUserID members_def)
  qed
qed

lemma members_cloud_calls:
  assumes "struct_layout (config d)" and "unat (numGroups (config d)) \<le> 16"
    and "0 \<notin> set (members (config d))"
  shows "struct_layout (config (cloud_calls cs d))
       \<and> unat (numGroups (config (cloud_calls cs d))) \<le> 16
       \<and> 0 \<notin> set (members (config (cloud_calls cs d)))"
  using assms
proof (induction cs arbitrary: d)
  case Nil
  then show ?case by (simp add: cloud_calls_def)
next
  case (Cons c cs)
  have "cloud_calls (c # cs) d = cloud_calls cs (cloud c d)"
    by (simp add: cloud_calls_def)
  then show ?case
    using Cons.IH [of "cloud c d"] members_cloud [OF Cons.prems, of c] by simp
qed

lemma members_after_start:
  assumes "version (eeprom d0) = 0xFF"
  shows "struct_layout (config (setup_fw d0)) \<and> unat (numGroups (config (setup_fw d0))) \<le> 16
       \<and> 0 \<notin> set (members (config (setup_fw d0)))"
  using assms
  by (simp add: setup_fw_def Let_def subscribe_def struct_layout_def members_def)

text \<open>A string that does not begin with white space, a sign or a digit reads as 0.\<close>

lemma strtol_no_number:
  assumes "s \<noteq> []" and "\<not> isspace (hd s)" and "hd s \<noteq> CHR ''-''" and "hd s \<noteq> CHR ''+''"
    and "\<not> isdigit (hd s)"
  shows "strtol s = 0"
proof -
  obtain c cs where s: "s = c # cs"
    using assms(1) by (cases s) auto
  show ?thesis
    using assms(2-5)
    by (simp add: strtol_def Let_def s digits_value_def LONG_MIN_def LONG_MAX_def)
qed

text \<open>On a device started from an erased EEPROM and configured through the cloud
  functions alone, a third segment that is no number and not the device ID runs nothing.\<close>

lemma parseMessage_no_number_not_addressed:
  assumes "version (eeprom d0) = 0xFF" and "d = cloud_calls cs (setup_fw d0)"
    and "segment U" and "segment C" and "segment S"
    and "c_str (userID (config d)) = U"
    and "length (U @ ''/'' @ C @ ''/'' @ S) < m"
    and "S \<noteq> c_str dev"
    and "\<not> isspace (hd S)" and "hd S \<noteq> CHR ''-''" and "hd S \<noteq> CHR ''+''" and "\<not> isdigit (hd S)"
  shows "strtol S = 0 \<and> 0 \<notin> uint ` set (members (config d))
       \<and> parseMessage m dev (U @ ''/'' @ C @ ''/'' @ S) data d
           = d\<lparr>outcomes := outcomes d @ [Not_addressed]\<rparr>"
proof -
  have inv: "struct_layout (config d) \<and> unat (numGroups (config d)) \<le> 16
             \<and> 0 \<notin> set (members (config d))"
    using members_after_start [OF assms(1)] members_cloud_calls [of "setup_fw d0" cs] assms(2)
    by simp
  have "S \<noteq> []"
    using assms(5) by (simp add: segment_def)
  then have z: "strtol S = 0"
    using strtol_no_number assms(9-12) by blast
  have nz: "0 \<notin> uint ` set (members (config d))"
    using inv by (auto simp: uint_0_iff)
  have "parseMessage m dev (U @ ''/'' @ C @ ''/'' @ S) data d
          = d\<lparr>outcomes := outcomes d @ [Not_addressed]\<rparr>"
    using parseMessage_three_segments [OF assms(3,4,5,6,7), of dev data] inv assms(8) z nz
    by simp
  then show ?thesis
    using z nz by simp
qed

section \<open>The event callback of the second sketch\<close>

text \<open>What the second sketch does with a payload of three segments: the number read
  from the third segment is looked for among all 16 entries of \<open>deviceGroups\<close>.\<close>

lemma group_loop_all_entries:
  assumes "struct_layout c"
  shows "group_loop (word_of_int (strtol s)) (deviceGroups c) MAX_DEVICE_GROUPS 0
           = Some (strtol s \<in> uint ` set (deviceGroups c))"
proof -
  let ?gs = "deviceGroups c"
  have n: "MAX_DEVICE_GROUPS \<le> length ?gs" and l: "length ?gs = MAX_DEVICE_GROUPS"
    using assms by (simp_all add: struct_layout_def)
  have "(\<exists>k. 0 \<le> k \<and> k < MAX_DEVICE_GROUPS
            \<and> (word_of_int (strtol s) :: 32 word) = ucast (?gs ! k))
        \<longleftrightarrow> (\<exists>k < MAX_DEVICE_GROUPS. strtol s = uint (?gs ! k))"
    by (simp add: parsed_group_eq [OF strtol_lower strtol_upper])
  also have "\<dots> \<longleftrightarrow> strtol s \<in> uint ` set (take MAX_DEVICE_GROUPS ?gs)"
    unfolding nth_image [OF n, symmetric] by auto
  finally show ?thesis
    using group_loop_spec [OF n, of "word_of_int (strtol s)" 0] l by simp
qed

lemma parseMessage_part_000_three_segments:
  assumes "segment U" and "segment C" and "segment S"
    and "c_str (userID (config d)) = U"
    and "struct_layout (config d)"
  shows "parseMessage_part_000 dev ev (U @ ''/'' @ C @ ''/'' @ S) d
           = d\<lparr>outcomes := outcomes d @
                 [if S = c_str dev \<or> strtol S \<in> uint ` set (deviceGroups (config d))
                  then (if C = ''red'' then Called red (U @ ''/'' @ C @ ''/'' @ S)
                        else if C = ''green'' then Called green (U @ ''/'' @ C @ ''/'' @ S)
                        else if C = ''blue'' then Called blue (U @ ''/'' @ C @ ''/'' @ S)
                        else Unknown_function C)
                  else Not_addressed]\<rparr>"
proof -
  have "NUL \<notin> set (U @ ''/'' @ C @ ''/'' @ S)"
    using assms(1,2,3) by (simp add: segment_def NUL_def)
  then have ev: "c_str (U @ ''/'' @ C @ ''/'' @ S) = U @ CHR ''/'' # (C @ CHR ''/'' # S)"
    using c_str_self by simp
  note loop = group_loop_all_entries [OF assms(5), of S]
  show ?thesis
    unfolding parseMessage_part_000_def Let_def ev
    by (simp add: strtok_segment_more [OF assms(1)] strtok_segment_more [OF assms(2)]
        strtok_segment_last [OF assms(3)] assms(4) loop)
qed

text \<open>
  Claim C1. For a topic \<open>U/C/S\<close> whose first segment is the configured user ID and whose
  third segment is not the device ID, the command is to run exactly when the number read
  from \<open>S\<close> is among the first \<open>numGroups\<close> entries of \<open>deviceGroups\<close>. The loop of
  \<open>example_device_group_fw.ino\<close> does so (\<open>parseMessage_three_segments\<close>). The loop
  of the second sketch runs over all 16 entries: after \<open>addToGroup("7")\<close> and
  \<open>clearGroups\<close> the membership is empty, and the topic \<open>000000/red/7\<close> (given as event
  name and as payload alike) still runs \<open>red\<close>.
\<close>

theorem part_000_cleared_group_still_addressed:
  "members (config (cloud_calls [AddToGroup ''7'', ClearGroups '''']
                      (setup_part_000 power_on))) = []
   \<and> c_str (userID (config (cloud_calls [AddToGroup ''7'', ClearGroups '''']
                      (setup_part_000 power_on)))) = ''000000''
   \<and> outcomes (parseMessage_part_000 example_deviceID ''000000/red/7'' ''000000/red/7''
        (cloud_calls [AddToGroup ''7'', ClearGroups ''''] (setup_part_000 power_on)))
       = [Called red ''000000/red/7'']"
  by code_simp

lemma fw_cleared_group_not_addressed:
  "outcomes (parseMessage 64 example_deviceID ''000000/f1/7'' ''000000/f1/7''
     (cloud_calls [SetUserID ''000000'', AddToGroup ''7'', ClearGroups '''']
        (setup_fw power_on)))
   = [Not_addressed]"
  by code_simp

text \<open>
  Claim C2. Which handler runs is to depend on the event name, the configuration and the
  device ID only, the payload being handed on unread; \<open>parseMessage\<close> of
  \<open>example_device_group_fw.ino\<close> does so (\<open>parseMessage_payload_unexamined\<close>). The
  second sketch tokenizes the payload and never reads the event name: on a device fresh
  from start-up, the event \<open>000000/red\<close> runs \<open>blue\<close> with the payload
  \<open>000000/blue\<close>, and runs nothing with the payload \<open>on\<close>.
\<close>

theorem part_000_payload_selects_handler:
  "outcomes (parseMessage_part_000 example_deviceID ''000000/red'' ''000000/blue''
              (setup_part_000 power_on))
     = [Called blue ''000000/blue'']
   \<and> outcomes (parseMessage_part_000 example_deviceID ''000000/red'' ''on''
              (setup_part_000 power_on))
     = []"
  by code_simp

lemma parseMessage_part_000_ignores_event:
  "parseMessage_part_000 dev ev data d = parseMessage_part_000 dev ev' data d"
  by (simp add: parseMessage_part_000_def)

lemma fw_payload_passed_on:
  "outcomes (parseMessage 64 example_deviceID ''000000/f1'' ''000000/f3''
              (cloud_calls [SetUserID ''000000''] (setup_fw power_on)))
     = [Called function1 ''000000/f3'']
   \<and> outcomes (parseMessage 64 example_deviceID ''000000/f1'' ''on''
              (cloud_calls [SetUserID ''000000''] (setup_fw power_on)))
     = [Called function1 ''on'']"
  by code_simp

text \<open>
  Claim C3. For a topic \<open>U/C/S\<close> whose first segment is the configured user ID and whose
  third segment is no number and not the device ID, on a device whose membership was built
  by \<open>addToGroup\<close> alone: \<open>S\<close> reads as 0, 0 is not in the membership, and nothing is to
  run. \<open>example_device_group_fw.ino\<close> does so
  (\<open>parseMessage_no_number_not_addressed\<close>). In the second sketch the loop also
  compares with the entries beyond \<open>numGroups\<close>, which start-up set to 0: after
  start-up and \<open>addToGroup("7")\<close> the membership is 7 alone, and the topic
  \<open>000000/red/xyz\<close> (given as event name and as payload alike) runs \<open>red\<close>.
\<close>

theorem part_000_no_number_addressed:
  "strtol ''xyz'' = 0
   \<and> members (config (cloud_calls [AddToGroup ''7''] (setup_part_000 power_on))) = [7]
   \<and> outcomes (parseMessage_part_000 example_deviceID ''000000/red/xyz'' ''000000/red/xyz''
        (cloud_calls [AddToGroup ''7''] (setup_part_000 power_on)))
       = [Called red ''000000/red/xyz'']"
  by code_simp

lemma fw_no_number_not_addressed:
  "outcomes (parseMessage 64 example_deviceID ''000000/f1/xyz'' ''000000/f1/xyz''
     (cloud_calls [SetUserID ''000000'', AddToGroup ''7''] (setup_fw power_on)))
   = [Not_addressed]"
  by code_simp

text \<open>
  Claim C4. For a topic whose first segment is the configured user ID and that has a
  command segment, the command is to run when there is no third segment, and when the third
  segment is the device ID, both before any group is compared;
  \<open>example_device_group_fw.ino\<close> does so (\<open>parseMessage_two_segments\<close>,
  \<open>parseMessage_own_deviceID\<close>). The second sketch reads the topic from the payload: on
  a device fresh from start-up, the events \<open>000000/green\<close> and
  \<open>000000/green/e00fce68f5048fcadf1ea38a\<close>, sent with the payload \<open>1\<close>, run nothing.
\<close>

theorem part_000_broadcast_not_run:
  "c_str (userID (config (setup_part_000 power_on))) = ''000000''
   \<and> outcomes (parseMessage_part_000 example_deviceID ''000000/green'' ''1''
        (setup_part_000 power_on)) = []
   \<and> outcomes (parseMessage_part_000 example_deviceID
        ''000000/green/e00fce68f5048fcadf1ea38a'' ''1'' (setup_part_000 power_on)) = []"
  by code_simp

lemma fw_broadcast_and_deviceID_run:
  "outcomes (parseMessage 64 example_deviceID ''000000/f2'' ''1''
        (cloud_calls [SetUserID ''000000''] (setup_fw power_on))) = [Called function2 ''1'']
   \<and> outcomes (parseMessage 64 example_deviceID ''000000/f2/e00fce68f5048fcadf1ea38a'' ''1''
        (cloud_calls [SetUserID ''000000''] (setup_fw power_on))) = [Called function2 ''1'']"
  by code_simp

text \<open>
  Claim C10. The tokenizer yields no empty segment (\<open>strtok_token\<close>), so the topic
  \<open>U//C\<close> is to be read as user ID \<open>U\<close>, command \<open>C\<close> and no third segment, and \<open>C\<close>
  is to run; \<open>example_device_group_fw.ino\<close> does so (\<open>parseMessage_doubled_slash\<close>).
  The second sketch tokenizes the payload, not the topic: on a device fresh from
  start-up, the event \<open>000000//blue\<close> sent with the payload \<open>255\<close> runs nothing.
\<close>

theorem part_000_doubled_slash_not_run:
  "outcomes (parseMessage_part_000 example_deviceID ''000000//blue'' ''255''
        (setup_part_000 power_on)) = []"
  by code_simp

lemma fw_doubled_slash_run:
  "outcomes (parseMessage 64 example_deviceID ''000000//f3'' ''255''
        (cloud_calls [SetUserID ''000000''] (setup_fw power_on))) = [Called function3 ''255'']"
  by code_simp

end
